theory Spec2Isabelle
  imports Complex_Main
begin

section \<open>JavaScript values as the scripts use them\<close>

text \<open>
  The value that \<open>setup\<close> returns reaches \<open>teardown\<close> as plain data: \<open>undefined\<close>,
  \<open>null\<close>, a boolean, a number, a string, an array or an object. Numbers are modelled as
  rationals, which is exact for the tests the scripts make on them (\<open>=== 200\<close>, \<open>< 500\<close>,
  truthiness). An object is an association list; the first binding of a key is the one
  that a property read returns. The resource limits of the engine (call-stack depth,
  memory) are outside the model.
\<close>

datatype jsval =
    JUndefined
  | JNull
  | JBool bool
  | JNum rat
  | JStr string
  | JArr "jsval list"
  | JObj "(string \<times> jsval) list"

datatype exn = Error string | TypeError string | AssertionError string

text \<open>The conversion to boolean that \<open>!\<close>, \<open>&&\<close>, \<open>||\<close> and \<open>if\<close> apply.\<close>

fun truthy :: "jsval \<Rightarrow> bool" where
  "truthy JUndefined = False"
| "truthy JNull = False"
| "truthy (JBool b) = b"
| "truthy (JNum n) = (n \<noteq> 0)"
| "truthy (JStr s) = (s \<noteq> [])"
| "truthy (JArr xs) = True"
| "truthy (JObj kvs) = True"

text \<open>
  \<open>v.k\<close> for a key \<open>k\<close> that no prototype defines (such as \<open>authToken\<close>): the binding of
  an object, \<open>undefined\<close> on every other value that is not \<open>null\<close> or \<open>undefined\<close>.
\<close>

fun get_prop :: "jsval \<Rightarrow> string \<Rightarrow> jsval" where
  "get_prop (JObj kvs) k = (case map_of kvs k of Some v \<Rightarrow> v | None \<Rightarrow> JUndefined)"
| "get_prop v k = JUndefined"

text \<open>\<open>v.k\<close> as the language evaluates it: reading a property of \<open>null\<close> or \<open>undefined\<close> throws.\<close>

definition member :: "jsval \<Rightarrow> string \<Rightarrow> exn + jsval" where
  "member v k =
     (if v = JNull \<or> v = JUndefined then Inl (TypeError ''Cannot read properties'')
      else Inr (get_prop v k))"

text \<open>\<open>v?.k\<close>: \<open>undefined\<close> when \<open>v\<close> is \<open>null\<close> or \<open>undefined\<close>, the property otherwise.\<close>

definition opt_member :: "jsval \<Rightarrow> string \<Rightarrow> jsval" where
  "opt_member v k = (if v = JNull \<or> v = JUndefined then JUndefined else get_prop v k)"

fun join_comma :: "string list \<Rightarrow> string" where
  "join_comma [] = []"
| "join_comma [s] = s"
| "join_comma (s # t # ss) = s @ '','' @ join_comma (t # ss)"

text \<open>The results of a row of conversions, or the first exception among them.\<close>

fun first_error :: "(exn + 'a) list \<Rightarrow> exn + 'a list" where
  "first_error [] = Inr []"
| "first_error (Inl e # rs) = Inl e"
| "first_error (Inr x # rs) =
     (case first_error rs of Inl e \<Rightarrow> Inl e | Inr xs \<Rightarrow> Inr (x # xs))"

text \<open>
  The string that a template literal \<open>`${v}`\<close> inserts, or the exception that the conversion
  throws. The decimal rendering of a number belongs to the JavaScript engine and is the
  parameter \<open>ns\<close>.

  An object is converted by its \<open>toString\<close> method and then by its \<open>valueOf\<close> method. A
  plain object inherits a \<open>toString\<close> that returns \<open>[object Object]\<close>. An own key
  \<open>toString\<close> hides it, and its value is data, never a function, so the conversion goes
  on to \<open>valueOf\<close>, which is either an own key (data again) or the inherited method that
  returns the object itself: neither gives a primitive, and the conversion throws a
  TypeError. An array is converted by joining the conversions of its elements, in order,
  with \<open>null\<close> and \<open>undefined\<close> elements rendered empty; an element that throws makes
  the array throw.
\<close>

fun to_string :: "(rat \<Rightarrow> string) \<Rightarrow> jsval \<Rightarrow> exn + string" where
  "to_string ns JUndefined = Inr ''undefined''"
| "to_string ns JNull = Inr ''null''"
| "to_string ns (JBool b) = Inr (if b then ''true'' else ''false'')"
| "to_string ns (JNum n) = Inr (ns n)"
| "to_string ns (JStr s) = Inr s"
| "to_string ns (JArr xs) =
     (case first_error
             (map (\<lambda>x. if x = JNull \<or> x = JUndefined then Inr [] else to_string ns x) xs) of
        Inl e \<Rightarrow> Inl e
      | Inr ss \<Rightarrow> Inr (join_comma ss))"
| "to_string ns (JObj kvs) =
     (case map_of kvs ''toString'' of
        None \<Rightarrow> Inr ''[object Object]''
      | Some v \<Rightarrow> Inl (TypeError ''Cannot convert object to primitive value''))"

text \<open>
  The values whose conversion to a string returns: everything but an object with an own
  key \<open>toString\<close> and an array that holds such an object at any depth.
\<close>

fun renderable :: "jsval \<Rightarrow> bool" where
  "renderable (JObj kvs) = (map_of kvs ''toString'' = None)"
| "renderable (JArr xs) = list_all renderable xs"
| "renderable v = True"

section \<open>The runtime as the scripts see it\<close>

datatype http_method = GET | POST | PUT | DELETE

record request =
  meth :: http_method
  url :: string
  req_body :: jsval
  headers :: "(string \<times> string) list"
  tags :: "(string \<times> string) list"

text \<open>
  The fields of a response that the scripts read: \<open>status\<close>, \<open>body\<close> (a string or \<open>null\<close>)
  and \<open>timings.duration\<close>.
\<close>

record response =
  status :: int
  body :: "string option"
  duration :: rat

text \<open>
  Everything a script can change outside itself: the requests sent, the lines written with
  \<open>console.error\<close> (each the list of its arguments), the values added to the rate metric
  \<open>errors\<close>, and the named outcomes recorded by \<open>check\<close> and \<open>expect\<close>.
\<close>

record world =
  http_log :: "request list"
  console :: "jsval list list"
  errors_rate :: "jsval list"
  checks :: "(string \<times> bool) list"

definition BASE_URL :: string where
  "BASE_URL = ''http://localhost:8765''"

text \<open>
  \<open>http.del\<close> belongs to the load-generation runtime, which the scripts import and the
  repository does not contain. As the scripts use it, it sends one DELETE request and returns
  the response of the system under test, here the parameter \<open>net\<close>. The log records each
  call: a request issued by the script is a call of \<open>http.del\<close>.
\<close>

definition http_del ::
  "(request \<Rightarrow> response) \<Rightarrow> string \<Rightarrow> jsval \<Rightarrow> (string \<times> string) list \<Rightarrow>
   (string \<times> string) list \<Rightarrow> world \<Rightarrow> response \<times> world" where
  "http_del net u b hs ts w =
     (let rq = \<lparr>meth = DELETE, url = u, req_body = b, headers = hs, tags = ts\<rparr>
      in (net rq, w\<lparr>http_log := http_log w @ [rq]\<rparr>))"

text \<open>
  Modelled from the spec: the check interface (a label and a predicate, reported as a named
  outcome), which is \<open>check\<close> of the runtime and not in the repository. It runs the
  predicates in order, records each outcome, and returns whether all of them were truthy.
  A predicate that throws is recorded as failed and its exception leaves \<open>check\<close>.
\<close>

fun check ::
  "response \<Rightarrow> (string \<times> (response \<Rightarrow> exn + jsval)) list \<Rightarrow> world \<Rightarrow> (exn + bool) \<times> world" where
  "check r [] w = (Inr True, w)"
| "check r ((n, p) # cs) w =
     (case p r of
        Inl e \<Rightarrow> (Inl e, w\<lparr>checks := checks w @ [(n, False)]\<rparr>)
      | Inr v \<Rightarrow>
          (case check r cs (w\<lparr>checks := checks w @ [(n, truthy v)]\<rparr>) of
             (Inl e, w') \<Rightarrow> (Inl e, w')
           | (Inr ok, w') \<Rightarrow> (Inr (truthy v \<and> ok), w')))"

text \<open>
  \<open>expect(actual, label).to.equal(expected)\<close> belongs to the assertion library that the
  functional scripts import. As the scripts use it, it records the outcome under the label
  and throws when the two differ.
\<close>

definition expect_equal :: "int \<Rightarrow> string \<Rightarrow> int \<Rightarrow> world \<Rightarrow> (exn + unit) \<times> world" where
  "expect_equal actual label expected w =
     (let w' = w\<lparr>checks := checks w @ [(label, actual = expected)]\<rparr>
      in if actual = expected then (Inr (), w') else (Inl (AssertionError label), w'))"

definition console_error :: "jsval list \<Rightarrow> world \<Rightarrow> world" where
  "console_error args w = w\<lparr>console := console w @ [args]\<rparr>"

text \<open>\<open>errors.add(1)\<close> on the rate metric \<open>errors\<close>.\<close>

definition errors_add :: "jsval \<Rightarrow> world \<Rightarrow> world" where
  "errors_add v w = w\<lparr>errors_rate := errors_rate w @ [v]\<rparr>"

definition body_val :: "response \<Rightarrow> jsval" where
  "body_val r = (case body r of None \<Rightarrow> JNull | Some s \<Rightarrow> JStr s)"

section \<open>The response checks of the scripts\<close>

text \<open>The three predicates that the scripts pass to \<open>check\<close>.\<close>

definition status_is :: "int \<Rightarrow> response \<Rightarrow> exn + jsval" where
  "status_is expected r = Inr (JBool (status r = expected))"

definition response_time_ok :: "response \<Rightarrow> exn + jsval" where
  "response_time_ok r = Inr (JBool (duration r < 500))"

text \<open>\<open>r.body && r.body.length > 0\<close>: the body itself when it is \<open>null\<close> or empty.\<close>

definition has_valid_response :: "response \<Rightarrow> exn + jsval" where
  "has_valid_response r =
     (case body r of
        None \<Rightarrow> Inr JNull
      | Some s \<Rightarrow> if s = [] then Inr (JStr s) else Inr (JBool (0 < length s)))"

text \<open>\<open>r.body.length > 0\<close>: throws on a \<open>null\<close> body.\<close>

definition has_valid_response_body :: "response \<Rightarrow> exn + jsval" where
  "has_valid_response_body r =
     (case body r of
        None \<Rightarrow> Inl (TypeError ''Cannot read properties'')
      | Some s \<Rightarrow> Inr (JBool (0 < length s)))"

text \<open>\<open>checkResponse\<close> of \<open>restaurant.js\<close> and of the high-volume copy of that script.\<close>

definition checkResponse_restaurant ::
  "response \<Rightarrow> string \<Rightarrow> world \<Rightarrow> (exn + bool) \<times> world" where
  "checkResponse_restaurant r requestName w =
     (case check r
        [(requestName @ '' status is 200'', status_is 200),
         (requestName @ '' response time < 500ms'', response_time_ok),
         (requestName @ '' has valid response'', has_valid_response)] w of
        (Inl e, w') \<Rightarrow> (Inl e, w')
      | (Inr checkResult, w') \<Rightarrow>
          if \<not> checkResult then
            (Inr checkResult,
             errors_add (JNum 1)
               (console_error
                  [JStr (requestName @ '' failed:''),
                   JObj [(''status'', JNum (of_int (status r))),
                         (''body'', body_val r),
                         (''timings'', JObj [(''duration'', JNum (duration r))])]] w'))
          else (Inr checkResult, w'))"

text \<open>\<open>checkResponse\<close> of the customer load script.\<close>

definition checkResponse_customer ::
  "response \<Rightarrow> string \<Rightarrow> world \<Rightarrow> (exn + bool) \<times> world" where
  "checkResponse_customer r requestName w =
     (case check r
        [(requestName @ '' status is 200'', status_is 200),
         (requestName @ '' response time < 500ms'', response_time_ok)] w of
        (Inl e, w') \<Rightarrow> (Inl e, w')
      | (Inr checkResult, w') \<Rightarrow>
          if \<not> checkResult then
            (Inr checkResult,
             errors_add (JNum 1)
               (console_error
                  [JStr (requestName @ '' failed:''),
                   JNum (of_int (status r)),
                   body_val r] w'))
          else (Inr checkResult, w'))"

text \<open>\<open>validateResponse\<close> of the customer functional script.\<close>

definition validateResponse ::
  "(rat \<Rightarrow> string) \<Rightarrow> response \<Rightarrow> string \<Rightarrow> int \<Rightarrow> world \<Rightarrow> (exn + bool) \<times> world" where
  "validateResponse ns r requestName expectedStatus w =
     (case check r
        [(requestName @ '' status is '' @ ns (of_int expectedStatus), status_is expectedStatus),
         (requestName @ '' has valid response body'', has_valid_response_body)] w of
        (Inl e, w') \<Rightarrow> (Inl e, w')
      | (Inr checkResult, w') \<Rightarrow>
          if \<not> checkResult then
            (Inr checkResult,
             errors_add (JNum 1)
               (console_error
                  [JStr (requestName @ '' validation failed:''),
                   JObj [(''status'', JNum (of_int (status r))),
                         (''body'', body_val r)]] w'))
          else (Inr checkResult, w'))"

section \<open>The teardown callbacks\<close>

text \<open>
  The \<open>headers\<close> object that every teardown builds:
  \<open>{ Authorization: `Bearer ${data.authToken}` }\<close>. It is an argument of \<open>http.del\<close>, so
  it is evaluated, and can throw, before the request is made.
\<close>

definition bearer :: "(rat \<Rightarrow> string) \<Rightarrow> jsval \<Rightarrow> exn + (string \<times> string) list" where
  "bearer ns tok =
     (case to_string ns tok of
        Inl e \<Rightarrow> Inl e
      | Inr s \<Rightarrow> Inr [(''Authorization'', ''Bearer '' @ s)])"

text \<open>
  \<open>teardown\<close> of \<open>restaurant.js\<close>; the high-volume copy of the script has the same text.
  The guard is \<open>if (!data?.authToken) return;\<close>.
\<close>

definition teardown_restaurant ::
  "(request \<Rightarrow> response) \<Rightarrow> (rat \<Rightarrow> string) \<Rightarrow> jsval \<Rightarrow> world \<Rightarrow> (exn + unit) \<times> world" where
  "teardown_restaurant net ns data w =
     (if \<not> truthy (opt_member data ''authToken'') then (Inr (), w)
      else
        (case member data ''authToken'' of
           Inl e \<Rightarrow> (Inl e, w)
         | Inr tok \<Rightarrow>
             (case bearer ns tok of
                Inl e \<Rightarrow> (Inl e, w)
              | Inr hs \<Rightarrow>
                  (case http_del net (BASE_URL @ ''/cleanup'') JNull hs
                          [(''name'', ''cleanup'')] w of
                     (cleanupResponse, w1) \<Rightarrow>
                       (case checkResponse_restaurant cleanupResponse ''Cleanup'' w1 of
                          (Inl e, w2) \<Rightarrow> (Inl e, w2)
                        | (Inr ok, w2) \<Rightarrow> (Inr (), w2))))))"

text \<open>
  \<open>teardown\<close> of the customer load script. The guard is \<open>if (!data || !data.authToken)\<close>,
  and the guarded branch writes a line to the console before it returns.
\<close>

definition teardown_customer ::
  "(request \<Rightarrow> response) \<Rightarrow> (rat \<Rightarrow> string) \<Rightarrow> jsval \<Rightarrow> world \<Rightarrow> (exn + unit) \<times> world" where
  "teardown_customer net ns data w =
     (if \<not> truthy data then
        (Inr (), console_error [JStr ''No authentication data available for cleanup''] w)
      else
        (case member data ''authToken'' of
           Inl e \<Rightarrow> (Inl e, w)
         | Inr tok \<Rightarrow>
             if \<not> truthy tok then
               (Inr (), console_error [JStr ''No authentication data available for cleanup''] w)
             else
               (case bearer ns tok of
                  Inl e \<Rightarrow> (Inl e, w)
                | Inr hs \<Rightarrow>
                    (case http_del net (BASE_URL @ ''/cleanup'') JNull hs [] w of
                       (cleanupResponse, w1) \<Rightarrow>
                         (case checkResponse_customer cleanupResponse ''Cleanup'' w1 of
                            (Inl e, w2) \<Rightarrow> (Inl e, w2)
                          | (Inr ok, w2) \<Rightarrow> (Inr (), w2))))))"

text \<open>
  \<open>teardown\<close> of the restaurant functional script. The guard is
  \<open>if (data?.authToken) { ... }\<close> around the whole body.
\<close>

definition teardown_restaurant_functional ::
  "(request \<Rightarrow> response) \<Rightarrow> (rat \<Rightarrow> string) \<Rightarrow> jsval \<Rightarrow> world \<Rightarrow> (exn + unit) \<times> world" where
  "teardown_restaurant_functional net ns data w =
     (if truthy (opt_member data ''authToken'') then
        (case member data ''authToken'' of
           Inl e \<Rightarrow> (Inl e, w)
         | Inr tok \<Rightarrow>
             (case bearer ns tok of
                Inl e \<Rightarrow> (Inl e, w)
              | Inr hs \<Rightarrow>
                  (case http_del net (BASE_URL @ ''/cleanup'') JNull hs [] w of
                     (cleanupResponse, w1) \<Rightarrow>
                       expect_equal (status cleanupResponse) ''Cleanup successful'' 200 w1)))
      else (Inr (), w))"

text \<open>\<open>teardown\<close> of the customer functional script.\<close>

definition teardown_customer_functional ::
  "(request \<Rightarrow> response) \<Rightarrow> (rat \<Rightarrow> string) \<Rightarrow> jsval \<Rightarrow> world \<Rightarrow> (exn + unit) \<times> world" where
  "teardown_customer_functional net ns data w =
     (if \<not> truthy data then
        (Inr (), console_error [JStr ''No auth token for cleanup''] w)
      else
        (case member data ''authToken'' of
           Inl e \<Rightarrow> (Inl e, w)
         | Inr tok \<Rightarrow>
             if \<not> truthy tok then
               (Inr (), console_error [JStr ''No auth token for cleanup''] w)
             else
               (case bearer ns tok of
                  Inl e \<Rightarrow> (Inl e, w)
                | Inr hs \<Rightarrow>
                    (case http_del net (BASE_URL @ ''/cleanup'') JNull hs [] w of
                       (cleanupResponse, w1) \<Rightarrow>
                         (case validateResponse ns cleanupResponse ''Cleanup'' 200 w1 of
                            (Inl e, w2) \<Rightarrow> (Inl e, w2)
                          | (Inr ok, w2) \<Rightarrow> (Inr (), w2))))))"

section \<open>What the guard decides\<close>

text \<open>
  The condition of the claim: \<open>data\<close> is \<open>null\<close> or \<open>undefined\<close>, or \<open>data.authToken\<close> is
  falsy.
\<close>

definition no_token :: "jsval \<Rightarrow> bool" where
  "no_token data \<longleftrightarrow> data = JNull \<or> data = JUndefined \<or> \<not> truthy (get_prop data ''authToken'')"

text \<open>
  The one request of a teardown that passes the guard, for a token that renders as \<open>s\<close>.
\<close>

definition cleanup_request :: "string \<Rightarrow> (string \<times> string) list \<Rightarrow> request" where
  "cleanup_request s ts =
     \<lparr>meth = DELETE, url = ''http://localhost:8765/cleanup'', req_body = JNull,
      headers = [(''Authorization'', ''Bearer '' @ s)], tags = ts\<rparr>"

section \<open>A concrete environment\<close>

text \<open>
  A system under test that answers every request with status 500, no body, after 900 ms:
  every response check of the scripts fails against it.
\<close>

definition failing_net :: "request \<Rightarrow> response" where
  "failing_net rq = \<lparr>status = 500, body = None, duration = 900\<rparr>"

fun show_nat :: "nat \<Rightarrow> string" where
  "show_nat n =
     (if n < 10 then [char_of (48 + n)]
      else show_nat (n div 10) @ [char_of (48 + n mod 10)])"

declare show_nat.simps [simp del]

text \<open>
  A number rendering for the examples below: the decimal digits of the integer part. It is
  the engine's rendering on integers below \<open>10^21\<close> in magnitude, such as the status 200
  that \<open>validateResponse\<close> puts in a label, and it is not the engine's rendering of any
  other number. The theorems hold for every rendering \<open>ns\<close>; no example renders a number
  outside that range.
\<close>

definition sample_ns :: "rat \<Rightarrow> string" where
  "sample_ns q =
     (let i = \<lfloor>q\<rfloor> in if i < 0 then ''-'' @ show_nat (nat (- i)) else show_nat (nat i))"

definition empty_world :: world where
  "empty_world = \<lparr>http_log = [], console = [], errors_rate = [], checks = []\<rparr>"

definition token_data :: jsval where
  "token_data = JObj [(''authToken'', JStr ''abc123'')]"

text \<open>A setup result whose token is an object with an own key \<open>toString\<close>.\<close>

definition object_token_data :: jsval where
  "object_token_data = JObj [(''authToken'', JObj [(''toString'', JNum 1)])]"

section \<open>Checks and assertions send nothing\<close>

lemma check_http_log: "http_log (snd (check r cs w)) = http_log w"
proof (induction cs arbitrary: w)
  case Nil
  show ?case by simp
next
  case (Cons c cs)
  obtain n p where c: "c = (n, p)" by (cases c)
  show ?case
  proof (cases "p r")
    case (Inl e)
    with c show ?thesis by simp
  next
    case (Inr v)
    let ?w = "w\<lparr>checks := checks w @ [(n, truthy v)]\<rparr>"
    have "http_log (snd (check r cs ?w)) = http_log ?w" by (rule Cons.IH)
    with c Inr show ?thesis
      by (cases "check r cs ?w") (auto split: sum.splits)
  qed
qed

lemma check_http_log': "check r cs w = (res, w') \<Longrightarrow> http_log w' = http_log w"
  using check_http_log [of r cs w] by simp

lemma checkResponse_restaurant_http_log:
  "http_log (snd (checkResponse_restaurant r n w)) = http_log w"
  by (auto simp: checkResponse_restaurant_def errors_add_def console_error_def
      split: sum.splits prod.splits dest: check_http_log')

lemma checkResponse_customer_http_log:
  "http_log (snd (checkResponse_customer r n w)) = http_log w"
  by (auto simp: checkResponse_customer_def errors_add_def console_error_def
      split: sum.splits prod.splits dest: check_http_log')

lemma validateResponse_http_log:
  "http_log (snd (validateResponse ns r n e w)) = http_log w"
  by (auto simp: validateResponse_def errors_add_def console_error_def
      split: sum.splits prod.splits dest: check_http_log')

lemma expect_equal_http_log:
  "http_log (snd (expect_equal a l e w)) = http_log w"
  by (simp add: expect_equal_def Let_def)

lemma no_token_opt_member: "no_token data \<longleftrightarrow> \<not> truthy (opt_member data ''authToken'')"
  by (auto simp: no_token_def opt_member_def)

lemma no_token_or: "no_token data \<longleftrightarrow> \<not> truthy data \<or> \<not> truthy (get_prop data ''authToken'')"
  by (cases data) (auto simp: no_token_def)



section \<open>When the token renders\<close>

lemma first_error_Inr_iff:
  "(\<exists>ys. first_error (map f xs) = Inr ys) \<longleftrightarrow> (\<forall>x \<in> set xs. \<exists>y. f x = Inr y)"
proof (induction xs)
  case Nil
  show ?case by simp
next
  case (Cons x xs)
  show ?case
  proof (cases "f x")
    case (Inl e)
    then show ?thesis by auto
  next
    case (Inr y)
    with Cons show ?thesis by (auto split: sum.splits)
  qed
qed

lemma to_string_renders: "(\<exists>s. to_string ns v = Inr s) \<longleftrightarrow> renderable v"
proof (induction ns v rule: to_string.induct)
  case (6 ns xs)
  let ?f = "\<lambda>x. if x = JNull \<or> x = JUndefined then Inr [] else to_string ns x"
  have "(\<exists>s. to_string ns (JArr xs) = Inr s) \<longleftrightarrow> (\<exists>ss. first_error (map ?f xs) = Inr ss)"
    by (auto split: sum.splits)
  also have "\<dots> \<longleftrightarrow> (\<forall>x \<in> set xs. \<exists>s. ?f x = Inr s)"
    by (rule first_error_Inr_iff)
  also have "\<dots> \<longleftrightarrow> (\<forall>x \<in> set xs. renderable x)"
  proof (rule ball_cong [OF refl])
    fix x assume x: "x \<in> set xs"
    show "(\<exists>s. ?f x = Inr s) \<longleftrightarrow> renderable x"
    proof (cases "x = JNull \<or> x = JUndefined")
      case True
      then show ?thesis by auto
    next
      case False
      with "6.IH" [OF x] show ?thesis by simp
    qed
  qed
  finally show ?case by (simp add: list_all_iff)
next
  case (7 ns kvs)
  show ?case by (auto split: option.splits)
qed simp_all

lemma first_error_Inl: "first_error rs = Inl e \<Longrightarrow> Inl e \<in> set rs"
proof (induction rs)
  case Nil
  then show ?case by simp
next
  case (Cons r rs)
  then show ?case by (cases r) (auto split: sum.splits)
qed

lemma to_string_throws:
  "to_string ns v = Inl e \<Longrightarrow> e = TypeError ''Cannot convert object to primitive value''"
proof (induction ns v arbitrary: e rule: to_string.induct)
  case (6 ns xs)
  let ?f = "\<lambda>x. if x = JNull \<or> x = JUndefined then Inr [] else to_string ns x"
  from "6.prems" have "first_error (map ?f xs) = Inl e"
    by (auto split: sum.splits)
  then have "Inl e \<in> set (map ?f xs)" by (rule first_error_Inl)
  then obtain x where x: "x \<in> set xs" and fx: "?f x = Inl e" by auto
  from fx have nx: "\<not> (x = JNull \<or> x = JUndefined)" and tx: "to_string ns x = Inl e"
    by (auto split: if_splits)
  from "6.IH" [OF x nx tx] show ?case .
next
  case (7 ns kvs)
  then show ?case by (auto split: option.splits)
qed simp_all

section \<open>The branches of each teardown\<close>

lemma member_Inr:
  "data \<noteq> JNull \<Longrightarrow> data \<noteq> JUndefined \<Longrightarrow> member data k = Inr (get_prop data k)"
  by (simp add: member_def)

lemma not_no_token:
  "\<not> no_token data \<Longrightarrow>
     data \<noteq> JNull \<and> data \<noteq> JUndefined \<and> truthy data \<and> truthy (get_prop data ''authToken'')"
  by (cases data) (auto simp: no_token_def)

lemma teardown_restaurant_skip:
  "no_token data \<Longrightarrow> teardown_restaurant net ns data w = (Inr (), w)"
  by (simp add: teardown_restaurant_def no_token_opt_member)

lemma teardown_restaurant_functional_skip:
  "no_token data \<Longrightarrow> teardown_restaurant_functional net ns data w = (Inr (), w)"
  by (simp add: teardown_restaurant_functional_def no_token_opt_member)

lemma teardown_customer_skip:
  "no_token data \<Longrightarrow> teardown_customer net ns data w =
     (Inr (), console_error [JStr ''No authentication data available for cleanup''] w)"
  by (cases data) (auto simp: teardown_customer_def no_token_def member_def)

lemma teardown_customer_functional_skip:
  "no_token data \<Longrightarrow> teardown_customer_functional net ns data w =
     (Inr (), console_error [JStr ''No auth token for cleanup''] w)"
  by (cases data) (auto simp: teardown_customer_functional_def no_token_def member_def)

lemma http_del_cleanup:
  "hs = [(''Authorization'', ''Bearer '' @ s)] \<Longrightarrow>
   http_del net (BASE_URL @ ''/cleanup'') JNull hs ts w =
     (net (cleanup_request s ts), w\<lparr>http_log := http_log w @ [cleanup_request s ts]\<rparr>)"
  by (simp add: http_del_def BASE_URL_def cleanup_request_def Let_def)

lemma bearer_Inr:
  "to_string ns tok = Inr s \<Longrightarrow> bearer ns tok = Inr [(''Authorization'', ''Bearer '' @ s)]"
  by (simp add: bearer_def)

lemma bearer_Inl: "to_string ns tok = Inl e \<Longrightarrow> bearer ns tok = Inl e"
  by (simp add: bearer_def)

lemma teardown_restaurant_send:
  assumes "\<not> no_token data" and r: "to_string ns (get_prop data ''authToken'') = Inr s"
  shows "http_log (snd (teardown_restaurant net ns data w)) =
           http_log w @ [cleanup_request s [(''name'', ''cleanup'')]]"
proof -
  let ?rq = "cleanup_request s [(''name'', ''cleanup'')]"
  let ?w1 = "w\<lparr>http_log := http_log w @ [?rq]\<rparr>"
  from assms have d: "data \<noteq> JNull" "data \<noteq> JUndefined" "truthy (get_prop data ''authToken'')"
    using not_no_token by blast+
  have "http_log (snd (checkResponse_restaurant (net ?rq) ''Cleanup'' ?w1)) = http_log ?w1"
    by (rule checkResponse_restaurant_http_log)
  then show ?thesis
    using d
    by (cases "checkResponse_restaurant (net ?rq) ''Cleanup'' ?w1")
       (auto simp: teardown_restaurant_def opt_member_def member_Inr bearer_Inr [OF r]
             http_del_cleanup split: sum.splits)
qed

lemma teardown_customer_send:
  assumes "\<not> no_token data" and r: "to_string ns (get_prop data ''authToken'') = Inr s"
  shows "http_log (snd (teardown_customer net ns data w)) =
           http_log w @ [cleanup_request s []]"
proof -
  let ?rq = "cleanup_request s []"
  let ?w1 = "w\<lparr>http_log := http_log w @ [?rq]\<rparr>"
  from assms have d: "data \<noteq> JNull" "data \<noteq> JUndefined" "truthy data"
      "truthy (get_prop data ''authToken'')"
    using not_no_token by blast+
  have "http_log (snd (checkResponse_customer (net ?rq) ''Cleanup'' ?w1)) = http_log ?w1"
    by (rule checkResponse_customer_http_log)
  then show ?thesis
    using d
    by (cases "checkResponse_customer (net ?rq) ''Cleanup'' ?w1")
       (auto simp: teardown_customer_def member_Inr bearer_Inr [OF r] http_del_cleanup
             split: sum.splits)
qed

lemma teardown_customer_functional_send:
  assumes "\<not> no_token data" and r: "to_string ns (get_prop data ''authToken'') = Inr s"
  shows "http_log (snd (teardown_customer_functional net ns data w)) =
           http_log w @ [cleanup_request s []]"
proof -
  let ?rq = "cleanup_request s []"
  let ?w1 = "w\<lparr>http_log := http_log w @ [?rq]\<rparr>"
  from assms have d: "data \<noteq> JNull" "data \<noteq> JUndefined" "truthy data"
      "truthy (get_prop data ''authToken'')"
    using not_no_token by blast+
  have "http_log (snd (validateResponse ns (net ?rq) ''Cleanup'' 200 ?w1)) = http_log ?w1"
    by (rule validateResponse_http_log)
  then show ?thesis
    using d
    by (cases "validateResponse ns (net ?rq) ''Cleanup'' 200 ?w1")
       (auto simp: teardown_customer_functional_def member_Inr bearer_Inr [OF r]
             http_del_cleanup split: sum.splits)
qed

lemma teardown_restaurant_functional_send:
  assumes "\<not> no_token data" and r: "to_string ns (get_prop data ''authToken'') = Inr s"
  shows "http_log (snd (teardown_restaurant_functional net ns data w)) =
           http_log w @ [cleanup_request s []]"
proof -
  from assms have d: "data \<noteq> JNull" "data \<noteq> JUndefined" "truthy (get_prop data ''authToken'')"
    using not_no_token by blast+
  then show ?thesis
    by (simp add: teardown_restaurant_functional_def opt_member_def member_Inr
          bearer_Inr [OF r] http_del_cleanup expect_equal_http_log)
qed

lemma teardown_restaurant_throw:
  assumes "\<not> no_token data" and r: "to_string ns (get_prop data ''authToken'') = Inl e"
  shows "teardown_restaurant net ns data w = (Inl e, w)"
  using not_no_token [OF assms(1)]
  by (simp add: teardown_restaurant_def opt_member_def member_Inr bearer_Inl [OF r])

lemma teardown_restaurant_functional_throw:
  assumes "\<not> no_token data" and r: "to_string ns (get_prop data ''authToken'') = Inl e"
  shows "teardown_restaurant_functional net ns data w = (Inl e, w)"
  using not_no_token [OF assms(1)]
  by (simp add: teardown_restaurant_functional_def opt_member_def member_Inr bearer_Inl [OF r])

lemma teardown_customer_throw:
  assumes "\<not> no_token data" and r: "to_string ns (get_prop data ''authToken'') = Inl e"
  shows "teardown_customer net ns data w = (Inl e, w)"
  using not_no_token [OF assms(1)]
  by (simp add: teardown_customer_def member_Inr bearer_Inl [OF r])

lemma teardown_customer_functional_throw:
  assumes "\<not> no_token data" and r: "to_string ns (get_prop data ''authToken'') = Inl e"
  shows "teardown_customer_functional net ns data w = (Inl e, w)"
  using not_no_token [OF assms(1)]
  by (simp add: teardown_customer_functional_def member_Inr bearer_Inl [OF r])

section \<open>The teardown guard\<close>

text \<open>
  Claim C10, as the code has it. For every value \<open>data\<close> passed to \<open>teardown\<close>: if \<open>data\<close> is
  \<open>null\<close> or \<open>undefined\<close>, or \<open>data.authToken\<close> is falsy, the callback sends no HTTP request
  and returns normally. The two restaurant scripts (and the high-volume copy) return at once
  and change nothing; the two customer scripts first write one line with \<open>console.error\<close>.
  Otherwise the callback builds the header \<open>Authorization: Bearer\<close> followed by the token
  as a string. When the token renders as a string \<open>s\<close>, the callback sends exactly one
  request, a DELETE to \<open>/cleanup\<close> with the header \<open>Bearer s\<close>, whatever the response checks
  that follow it do. When the conversion throws, the callback throws that exception before
  any request and changes nothing. The conversion throws, a TypeError, exactly for a token
  that is an object with an own key \<open>toString\<close> or an array holding such an object at any
  depth; every string token renders as itself.
\<close>

theorem teardown_guard:
  "(no_token data \<longrightarrow>
      teardown_restaurant net ns data w = (Inr (), w) \<and>
      teardown_restaurant_functional net ns data w = (Inr (), w) \<and>
      teardown_customer net ns data w =
        (Inr (), console_error [JStr ''No authentication data available for cleanup''] w) \<and>
      teardown_customer_functional net ns data w =
        (Inr (), console_error [JStr ''No auth token for cleanup''] w) \<and>
      http_log (snd (teardown_customer net ns data w)) = http_log w \<and>
      http_log (snd (teardown_customer_functional net ns data w)) = http_log w) \<and>
   (\<not> no_token data \<longrightarrow> to_string ns (get_prop data ''authToken'') = Inr s \<longrightarrow>
      http_log (snd (teardown_restaurant net ns data w)) =
        http_log w @ [cleanup_request s [(''name'', ''cleanup'')]] \<and>
      http_log (snd (teardown_restaurant_functional net ns data w)) =
        http_log w @ [cleanup_request s []] \<and>
      http_log (snd (teardown_customer net ns data w)) =
        http_log w @ [cleanup_request s []] \<and>
      http_log (snd (teardown_customer_functional net ns data w)) =
        http_log w @ [cleanup_request s []]) \<and>
   (\<not> no_token data \<longrightarrow> to_string ns (get_prop data ''authToken'') = Inl e \<longrightarrow>
      e = TypeError ''Cannot convert object to primitive value'' \<and>
      teardown_restaurant net ns data w = (Inl e, w) \<and>
      teardown_restaurant_functional net ns data w = (Inl e, w) \<and>
      teardown_customer net ns data w = (Inl e, w) \<and>
      teardown_customer_functional net ns data w = (Inl e, w)) \<and>
   ((\<exists>t. to_string ns (get_prop data ''authToken'') = Inr t) \<longleftrightarrow>
      renderable (get_prop data ''authToken'')) \<and>
   to_string ns (JStr tok) = Inr tok"
proof (intro conjI impI)
  assume n: "no_token data"
  show "teardown_restaurant net ns data w = (Inr (), w)"
    using n by (rule teardown_restaurant_skip)
  show "teardown_restaurant_functional net ns data w = (Inr (), w)"
    using n by (rule teardown_restaurant_functional_skip)
  show "teardown_customer net ns data w =
        (Inr (), console_error [JStr ''No authentication data available for cleanup''] w)"
    using n by (rule teardown_customer_skip)
  show "teardown_customer_functional net ns data w =
        (Inr (), console_error [JStr ''No auth token for cleanup''] w)"
    using n by (rule teardown_customer_functional_skip)
  show "http_log (snd (teardown_customer net ns data w)) = http_log w"
    using n by (simp add: teardown_customer_skip console_error_def)
  show "http_log (snd (teardown_customer_functional net ns data w)) = http_log w"
    using n by (simp add: teardown_customer_functional_skip console_error_def)
next
  assume t: "\<not> no_token data" and r: "to_string ns (get_prop data ''authToken'') = Inr s"
  show "http_log (snd (teardown_restaurant net ns data w)) =
        http_log w @ [cleanup_request s [(''name'', ''cleanup'')]]"
    using t r by (rule teardown_restaurant_send)
  show "http_log (snd (teardown_restaurant_functional net ns data w)) =
        http_log w @ [cleanup_request s []]"
    using t r by (rule teardown_restaurant_functional_send)
  show "http_log (snd (teardown_customer net ns data w)) =
        http_log w @ [cleanup_request s []]"
    using t r by (rule teardown_customer_send)
  show "http_log (snd (teardown_customer_functional net ns data w)) =
        http_log w @ [cleanup_request s []]"
    using t r by (rule teardown_customer_functional_send)
next
  assume t: "\<not> no_token data" and r: "to_string ns (get_prop data ''authToken'') = Inl e"
  show "e = TypeError ''Cannot convert object to primitive value''"
    using r by (rule to_string_throws)
  show "teardown_restaurant net ns data w = (Inl e, w)"
    using t r by (rule teardown_restaurant_throw)
  show "teardown_restaurant_functional net ns data w = (Inl e, w)"
    using t r by (rule teardown_restaurant_functional_throw)
  show "teardown_customer net ns data w = (Inl e, w)"
    using t r by (rule teardown_customer_throw)
  show "teardown_customer_functional net ns data w = (Inl e, w)"
    using t r by (rule teardown_customer_functional_throw)
next
  show "(\<exists>t. to_string ns (get_prop data ''authToken'') = Inr t) \<longleftrightarrow>
        renderable (get_prop data ''authToken'')"
    by (rule to_string_renders)
  show "to_string ns (JStr tok) = Inr tok"
    by simp
qed

text \<open>
  Claim C10, every branch at a concrete input: \<open>null\<close>; an object with the token
  \<open>abc123\<close>; and an object whose token is an object with an own key \<open>toString\<close>. The system
  under test fails every response check.
\<close>

theorem teardown_guard_witness:
  "no_token JNull \<and>
   teardown_restaurant failing_net sample_ns JNull empty_world = (Inr (), empty_world) \<and>
   teardown_restaurant_functional failing_net sample_ns JNull empty_world = (Inr (), empty_world) \<and>
   http_log (snd (teardown_customer failing_net sample_ns JNull empty_world)) = [] \<and>
   http_log (snd (teardown_customer_functional failing_net sample_ns JNull empty_world)) = [] \<and>
   \<not> no_token token_data \<and>
   to_string sample_ns (get_prop token_data ''authToken'') = Inr ''abc123'' \<and>
   renderable (get_prop token_data ''authToken'') \<and>
   http_log (snd (teardown_restaurant failing_net sample_ns token_data empty_world)) =
     [cleanup_request ''abc123'' [(''name'', ''cleanup'')]] \<and>
   http_log (snd (teardown_restaurant_functional failing_net sample_ns token_data empty_world)) =
     [cleanup_request ''abc123'' []] \<and>
   http_log (snd (teardown_customer failing_net sample_ns token_data empty_world)) =
     [cleanup_request ''abc123'' []] \<and>
   http_log (snd (teardown_customer_functional failing_net sample_ns token_data empty_world)) =
     [cleanup_request ''abc123'' []] \<and>
   \<not> no_token object_token_data \<and>
   \<not> renderable (get_prop object_token_data ''authToken'') \<and>
   to_string sample_ns (get_prop object_token_data ''authToken'') =
     Inl (TypeError ''Cannot convert object to primitive value'') \<and>
   teardown_restaurant failing_net sample_ns object_token_data empty_world =
     (Inl (TypeError ''Cannot convert object to primitive value''), empty_world) \<and>
   teardown_restaurant_functional failing_net sample_ns object_token_data empty_world =
     (Inl (TypeError ''Cannot convert object to primitive value''), empty_world) \<and>
   teardown_customer failing_net sample_ns object_token_data empty_world =
     (Inl (TypeError ''Cannot convert object to primitive value''), empty_world) \<and>
   teardown_customer_functional failing_net sample_ns object_token_data empty_world =
     (Inl (TypeError ''Cannot convert object to primitive value''), empty_world)"
proof -
  let ?e = "TypeError ''Cannot convert object to primitive value''"
  have a: "no_token JNull"
    by (simp add: no_token_def)
  have b: "\<not> no_token token_data"
    by (simp add: no_token_def token_data_def)
  have br: "to_string sample_ns (get_prop token_data ''authToken'') = Inr ''abc123''"
    by (simp add: token_data_def)
  have c: "\<not> no_token object_token_data"
    by (simp add: no_token_def object_token_data_def)
  have cr: "to_string sample_ns (get_prop object_token_data ''authToken'') = Inl ?e"
    by (simp add: object_token_data_def)
  have e: "http_log empty_world = []"
    by (simp add: empty_world_def)
  show ?thesis
    using a b br c cr e
      teardown_guard [of JNull failing_net sample_ns empty_world]
      teardown_guard [of token_data failing_net sample_ns empty_world "''abc123''"]
      teardown_guard [of object_token_data failing_net sample_ns empty_world _ ?e]
    by (simp add: console_error_def)
qed

text \<open>
  Claim C10 as first stated has every script skip the cleanup silently and return
  immediately. The customer load script does not: on \<open>null\<close> it returns only after it has
  written \<open>No authentication data available for cleanup\<close> to the console.
\<close>

theorem teardown_customer_not_silent_counterexample:
  "no_token JNull \<and>
   teardown_customer failing_net sample_ns JNull empty_world \<noteq> (Inr (), empty_world) \<and>
   console (snd (teardown_customer failing_net sample_ns JNull empty_world)) =
     [ [JStr ''No authentication data available for cleanup''] ]"
  by (simp add: no_token_def teardown_customer_def console_error_def empty_world_def)

end
